theory Spec2Isabelle
  imports Main
begin

section \<open>Data model of \<open>load_data.py\<close>\<close>

text \<open>
  A one-dimensional tensor of token ids is a list of integers; a batch-first
  two-dimensional tensor is the list of its rows. Exceptions of the Python code are
  values of \<open>error\<close>, and every function that can raise returns \<open>error + 'a\<close>
  with \<open>Inl\<close> for the exception.
\<close>

type_synonym tensor = "int list"

type_synonym tensor2 = "int list list"

datatype error =
    FileNotFoundError string
  | KeyError string
  | IndexError
  | RuntimeError
  | TypeError

definition PAD_IDX :: int where
  "PAD_IDX = 0"

subsection \<open>The tokenizer collaborator\<close>

text \<open>
  \<open>T5TokenizerFast\<close> belongs to the \<open>transformers\<close> library, not to this repository.
  It is a parameter of the model: its raw tokenisation of a text, the id of its end
  marker, and its vocabulary (\<open>get_vocab()\<close>) are arbitrary.
\<close>

record tokenizer =
  tokenize :: "string \<Rightarrow> int list"
  eos_token_id :: int
  get_vocab :: "string \<rightharpoonup> int"

text \<open>
  Modelled from the spec: the body of \<open>tokenizer.encode\<close> is library code that is
  not under \<open>src/\<close>. The spec's contract of the collaborator is that it returns an
  ordered sequence of integer token ids for a string and that its "add special tokens"
  mode appends an end marker. The call sites
  \<open>tokenizer.encode(text, add_special_tokens=True, return_tensors="pt").squeeze(0)\<close>
  produce the one-dimensional tensor of these ids.
\<close>

definition encode :: "tokenizer \<Rightarrow> string \<Rightarrow> bool \<Rightarrow> tensor" where
  "encode tk text add_special_tokens =
     tokenize tk text @ (if add_special_tokens then [eos_token_id tk] else [])"

subsection \<open>Files\<close>

text \<open>
  The file system maps a path to the list of lines that \<open>readlines()\<close> returns for
  it; a path outside the domain is a file that does not exist.
\<close>

type_synonym filesystem = "string \<rightharpoonup> string list"

text \<open>
  \<open>str.strip()\<close> removes leading and trailing whitespace. The whitespace characters
  of the ASCII range are the ones modelled (\<open>char\<close> is a byte).
\<close>

definition isspace :: "char \<Rightarrow> bool" where
  "isspace c = (c \<in> set [CHR '' '', CHR 0x09, CHR 0x0A, CHR 0x0B, CHR 0x0C, CHR 0x0D,
                          CHR 0x1C, CHR 0x1D, CHR 0x1E, CHR 0x1F])"

definition strip :: "string \<Rightarrow> string" where
  "strip s = rev (dropWhile isspace (rev (dropWhile isspace s)))"

definition load_lines :: "filesystem \<Rightarrow> string \<Rightarrow> error + string list" where
  "load_lines fs path =
     (case fs path of
        None \<Rightarrow> Inl (FileNotFoundError path)
      | Some lines \<Rightarrow> Inr (map strip lines))"

text \<open>\<open>os.path.join\<close> of two components on a POSIX system.\<close>

definition path_join :: "string \<Rightarrow> string \<Rightarrow> string" where
  "path_join a b =
     (if take 1 b = ''/'' then b
      else if a = [] then b
      else if last a = CHR ''/'' then a @ b
      else a @ ''/'' @ b)"

subsection \<open>The dataset\<close>

record T5Dataset =
  split :: string
  bos_token_id :: int
  encoder_inputs :: "tensor list"
  decoder_inputs :: "tensor list"
  decoder_targets :: "tensor list"

text \<open>
  The loop of \<open>process_data\<close> over \<open>zip(nl_queries, sql_queries)\<close>: each pair appends
  one tensor to each of the three lists. \<open>tokenized_sql[:-1]\<close> is \<open>butlast\<close> (the
  slice of an empty tensor is empty), and \<open>torch.tensor([])\<close> is the empty tensor.
\<close>

fun process_pairs ::
  "tokenizer \<Rightarrow> int \<Rightarrow> string \<Rightarrow> (string \<times> string) list \<Rightarrow>
   tensor list \<times> tensor list \<times> tensor list \<Rightarrow> tensor list \<times> tensor list \<times> tensor list"
where
  "process_pairs tk bos spl [] acc = acc"
| "process_pairs tk bos spl ((nl_query, sql_query) # rest) (enc_ins, dec_ins, dec_tgts) =
     (let tokenized_nl = encode tk nl_query True in
      if spl \<noteq> ''test'' then
        (let tokenized_sql = encode tk sql_query True;
             decoder_input = [bos] @ butlast tokenized_sql
         in process_pairs tk bos spl rest
              (enc_ins @ [tokenized_nl], dec_ins @ [decoder_input], dec_tgts @ [tokenized_sql]))
      else
        (let decoder_input = [bos]
         in process_pairs tk bos spl rest
              (enc_ins @ [tokenized_nl], dec_ins @ [decoder_input], dec_tgts @ [[]])))"

definition process_data ::
  "filesystem \<Rightarrow> tokenizer \<Rightarrow> int \<Rightarrow> string \<Rightarrow> string \<Rightarrow>
   error + (tensor list \<times> tensor list \<times> tensor list)"
where
  "process_data fs tk bos data_folder spl =
     (let nl_path = path_join data_folder (spl @ ''.nl'');
          sql_path = path_join data_folder (spl @ ''.sql'')
      in case load_lines fs nl_path of
           Inl e \<Rightarrow> Inl e
         | Inr nl_queries \<Rightarrow>
             (case (if spl \<noteq> ''test'' then load_lines fs sql_path
                    else Inr (replicate (length nl_queries) '''')) of
                Inl e \<Rightarrow> Inl e
              | Inr sql_queries \<Rightarrow>
                  Inr (process_pairs tk bos spl (zip nl_queries sql_queries) ([], [], []))))"

text \<open>
  \<open>T5Dataset.__init__\<close>: the tokenizer loaded by \<open>from_pretrained\<close> is the parameter
  \<open>tk\<close>; the lookup \<open>get_vocab()['<extra_id_0>']\<close> raises \<open>KeyError\<close> when the
  vocabulary has no such entry.
\<close>

definition T5Dataset_init ::
  "filesystem \<Rightarrow> tokenizer \<Rightarrow> string \<Rightarrow> string \<Rightarrow> error + T5Dataset"
where
  "T5Dataset_init fs tk data_folder spl =
     (case get_vocab tk ''<extra_id_0>'' of
        None \<Rightarrow> Inl (KeyError ''<extra_id_0>'')
      | Some bos \<Rightarrow>
          (case process_data fs tk bos data_folder spl of
             Inl e \<Rightarrow> Inl e
           | Inr (enc_ins, dec_ins, dec_tgts) \<Rightarrow>
               Inr \<lparr> split = spl, bos_token_id = bos, encoder_inputs = enc_ins,
                     decoder_inputs = dec_ins, decoder_targets = dec_tgts \<rparr>))"

definition T5Dataset_len :: "T5Dataset \<Rightarrow> nat" where
  "T5Dataset_len ds = length (encoder_inputs ds)"

text \<open>Python list indexing: a negative index counts from the end, out of range raises.\<close>

definition py_index :: "'a list \<Rightarrow> int \<Rightarrow> error + 'a" where
  "py_index xs i =
     (let n = int (length xs);
          j = (if i < 0 then i + n else i)
      in if 0 \<le> j \<and> j < n then Inr (xs ! nat j) else Inl IndexError)"

definition getitem :: "T5Dataset \<Rightarrow> int \<Rightarrow> error + (tensor \<times> tensor \<times> tensor option)" where
  "getitem ds idx =
     (if split ds \<noteq> ''test'' then
        (case py_index (encoder_inputs ds) idx of
           Inl e \<Rightarrow> Inl e
         | Inr enc \<Rightarrow>
             (case py_index (decoder_inputs ds) idx of
                Inl e \<Rightarrow> Inl e
              | Inr dec \<Rightarrow>
                  (case py_index (decoder_targets ds) idx of
                     Inl e \<Rightarrow> Inl e
                   | Inr tgt \<Rightarrow> Inr (enc, dec, Some tgt))))
      else
        (case py_index (encoder_inputs ds) idx of
           Inl e \<Rightarrow> Inl e
         | Inr enc \<Rightarrow>
             (case py_index (decoder_inputs ds) idx of
                Inl e \<Rightarrow> Inl e
              | Inr dec \<Rightarrow> Inr (enc, dec, None))))"

subsection \<open>Collation\<close>

text \<open>
  \<open>torch.nn.utils.rnn.pad_sequence(sequences, batch_first=True, padding_value)\<close> on
  one-dimensional tensors is PyTorch library code: it refuses an empty list of sequences
  with an error, takes the longest length as the common length and copies every sequence
  into the front of its row of a tensor filled with the padding value.
\<close>

fun max_len :: "tensor list \<Rightarrow> nat" where
  "max_len [] = 0"
| "max_len (s # ss) = max (length s) (max_len ss)"

definition pad_row :: "nat \<Rightarrow> int \<Rightarrow> tensor \<Rightarrow> tensor" where
  "pad_row n padding_value s = s @ replicate (n - length s) padding_value"

definition pad_sequence :: "tensor list \<Rightarrow> int \<Rightarrow> error + tensor2" where
  "pad_sequence sequences padding_value =
     (if sequences = [] then Inl RuntimeError
      else Inr (map (pad_row (max_len sequences) padding_value) sequences))"

text \<open>
  \<open>(encoder_ids != PAD_IDX).float()\<close>: the entries are the floats \<open>1.0\<close> and \<open>0.0\<close>,
  written here as the integers 1 and 0.
\<close>

definition make_mask :: "tensor2 \<Rightarrow> tensor2" where
  "make_mask ids = map (map (\<lambda>t. if t = PAD_IDX then 0 else 1)) ids"

text \<open>
  \<open>[decoder_inputs[i][0] for i in range(len(decoder_inputs))]\<close>: indexing an empty
  tensor at 0 raises \<open>IndexError\<close>.
\<close>

fun first_tokens :: "tensor list \<Rightarrow> error + tensor" where
  "first_tokens [] = Inr []"
| "first_tokens (d # ds) =
     (case d of
        [] \<Rightarrow> Inl IndexError
      | t # _ \<Rightarrow> (case first_tokens ds of Inl e \<Rightarrow> Inl e | Inr ts \<Rightarrow> Inr (t # ts)))"

text \<open>
  \<open>item[2]\<close> is \<open>None\<close> for an item of the test split; \<open>pad_sequence\<close> accepts tensors
  only and raises \<open>TypeError\<close> on a list that holds \<open>None\<close>.
\<close>

fun tensors_of :: "tensor option list \<Rightarrow> error + tensor list" where
  "tensors_of [] = Inr []"
| "tensors_of (None # _) = Inl TypeError"
| "tensors_of (Some t # rest) =
     (case tensors_of rest of Inl e \<Rightarrow> Inl e | Inr ts \<Rightarrow> Inr (t # ts))"

type_synonym item = "tensor \<times> tensor \<times> tensor option"

definition normal_collate_fn ::
  "item list \<Rightarrow> error + (tensor2 \<times> tensor2 \<times> tensor2 \<times> tensor2 \<times> tensor)"
where
  "normal_collate_fn batch =
     (let enc_ins = map (\<lambda>item. fst item) batch;
          dec_ins = map (\<lambda>item. fst (snd item)) batch;
          dec_tgts = map (\<lambda>item. snd (snd item)) batch
      in case pad_sequence enc_ins PAD_IDX of
           Inl e \<Rightarrow> Inl e
         | Inr encoder_ids \<Rightarrow>
        (case pad_sequence dec_ins PAD_IDX of
           Inl e \<Rightarrow> Inl e
         | Inr decoder_inputs_padded \<Rightarrow>
        (case tensors_of dec_tgts of
           Inl e \<Rightarrow> Inl e
         | Inr tgts \<Rightarrow>
        (case pad_sequence tgts PAD_IDX of
           Inl e \<Rightarrow> Inl e
         | Inr decoder_targets_padded \<Rightarrow>
        (let encoder_mask = make_mask encoder_ids
         in case first_tokens dec_ins of
              Inl e \<Rightarrow> Inl e
            | Inr initial_decoder_inputs \<Rightarrow>
                Inr (encoder_ids, encoder_mask, decoder_inputs_padded,
                     decoder_targets_padded, initial_decoder_inputs))))))"

definition test_collate_fn :: "item list \<Rightarrow> error + (tensor2 \<times> tensor2 \<times> tensor)" where
  "test_collate_fn batch =
     (let enc_ins = map (\<lambda>item. fst item) batch;
          dec_ins = map (\<lambda>item. fst (snd item)) batch
      in case pad_sequence enc_ins PAD_IDX of
           Inl e \<Rightarrow> Inl e
         | Inr encoder_ids \<Rightarrow>
        (let encoder_mask = make_mask encoder_ids
         in case first_tokens dec_ins of
              Inl e \<Rightarrow> Inl e
            | Inr initial_decoder_inputs \<Rightarrow>
                Inr (encoder_ids, encoder_mask, initial_decoder_inputs)))"

subsection \<open>Reading a padded row back\<close>

text \<open>
  The round trip of the specification strips the padding of a padded row with the mask:
  it keeps exactly the positions of the row whose mask entry is 1. The source has no
  such function; this one states the operation the round-trip property is about.
\<close>

definition strip_padding :: "tensor \<Rightarrow> tensor \<Rightarrow> tensor" where
  "strip_padding row mask_row = map fst (filter (\<lambda>p. snd p = 1) (zip row mask_row))"

subsection \<open>A concrete tokenizer and file system\<close>

text \<open>
  A toy tokenizer (one token per character, end marker 1, marker \<open><extra_id_0>\<close> at
  id 32099) and a small data folder: the training split has two questions and one SQL
  line, the test split one question, the development split no line at all.
\<close>

definition ex_tk :: tokenizer where
  "ex_tk = \<lparr> tokenize = map (\<lambda>c. int (of_char c)), eos_token_id = 1,
             get_vocab = [''<extra_id_0>'' \<mapsto> 32099] \<rparr>"

definition ex_fs :: filesystem where
  "ex_fs = [''data/train.nl'' \<mapsto> [''ab'' @ [CHR 0x0A], '' c'' @ [CHR 0x0A]],
            ''data/train.sql'' \<mapsto> [''x'' @ [CHR 0x0A]],
            ''data/test.nl'' \<mapsto> [''ab'' @ [CHR 0x0A]],
            ''data/dev.nl'' \<mapsto> [],
            ''data/dev.sql'' \<mapsto> []]"

section \<open>Properties of the helper functions\<close>

lemma process_pairs_labeled:
  "spl \<noteq> ''test'' \<Longrightarrow>
   process_pairs tk bos spl ps (es, ds, ts) =
     (es @ map (\<lambda>p. encode tk (fst p) True) ps,
      ds @ map (\<lambda>p. bos # butlast (encode tk (snd p) True)) ps,
      ts @ map (\<lambda>p. encode tk (snd p) True) ps)"
  by (induction ps arbitrary: es ds ts) (auto simp: Let_def)

lemma process_pairs_test:
  "process_pairs tk bos ''test'' ps (es, ds, ts) =
     (es @ map (\<lambda>p. encode tk (fst p) True) ps,
      ds @ map (\<lambda>p. [bos]) ps,
      ts @ map (\<lambda>p. []) ps)"
  by (induction ps arbitrary: es ds ts) (auto simp: Let_def)

lemma max_len_ge: "s \<in> set ss \<Longrightarrow> length s \<le> max_len ss"
  by (induction ss) auto

lemma max_len_attained: "ss \<noteq> [] \<Longrightarrow> \<exists>s \<in> set ss. length s = max_len ss"
proof (induction ss)
  case Nil
  then show ?case by simp
next
  case (Cons a ss)
  show ?case
  proof (cases "ss = []")
    case True
    then show ?thesis by simp
  next
    case False
    with Cons.IH obtain s where "s \<in> set ss" "length s = max_len ss" by blast
    then show ?thesis by (cases "length a \<le> max_len ss") (auto simp: max_def)
  qed
qed

lemma max_len_Max: "ss \<noteq> [] \<Longrightarrow> max_len ss = Max (set (map length ss))"
proof -
  assume ne: "ss \<noteq> []"
  have fin: "finite (set (map length ss))" by simp
  have nonempty: "set (map length ss) \<noteq> {}" using ne by simp
  have ub: "\<forall>n \<in> set (map length ss). n \<le> max_len ss"
    using max_len_ge by auto
  have mem: "max_len ss \<in> set (map length ss)"
    using max_len_attained [OF ne] by force
  have "Max (set (map length ss)) = max_len ss"
    using fin ub mem by (intro Max_eqI) auto
  then show ?thesis by simp
qed

lemma first_tokens_Inl:
  "first_tokens ds = Inl e \<longleftrightarrow> ([] \<in> set ds \<and> e = IndexError)"
  by (induction ds) (auto split: list.splits sum.splits)

lemma first_tokens_map_hd: "[] \<notin> set ds \<Longrightarrow> first_tokens ds = Inr (map hd ds)"
  by (induction ds) (auto split: list.splits)

lemma first_tokens_Inr:
  "first_tokens ds = Inr ts \<longleftrightarrow> ([] \<notin> set ds \<and> ts = map hd ds)"
proof (cases "[] \<in> set ds")
  case True
  then have "first_tokens ds = Inl IndexError" by (simp add: first_tokens_Inl)
  with True show ?thesis by simp
next
  case False
  then show ?thesis by (auto simp: first_tokens_map_hd)
qed

lemma tensors_of_map_Some: "tensors_of (map Some ts) = Inr ts"
  by (induction ts) auto

lemma tensors_of_Inr: "tensors_of os = Inr ts \<longleftrightarrow> os = map Some ts"
proof
  show "tensors_of os = Inr ts \<Longrightarrow> os = map Some ts"
    by (induction os arbitrary: ts rule: tensors_of.induct) (auto split: sum.splits)
next
  show "os = map Some ts \<Longrightarrow> tensors_of os = Inr ts"
    by (simp add: tensors_of_map_Some)
qed

lemma pad_sequence_Inl:
  "pad_sequence ss p = Inl e \<longleftrightarrow> (ss = [] \<and> e = RuntimeError)"
  by (auto simp: pad_sequence_def)

lemma pad_sequence_Inr:
  "pad_sequence ss p = Inr rows \<longleftrightarrow> (ss \<noteq> [] \<and> rows = map (pad_row (max_len ss) p) ss)"
  by (auto simp: pad_sequence_def)

lemma length_pad_row: "length s \<le> n \<Longrightarrow> length (pad_row n p s) = n"
  by (simp add: pad_row_def)

lemma normal_collate_fn_Inr:
  "normal_collate_fn batch = Inr (encoder_ids, encoder_mask, dec_in_padded, dec_tgt_padded, init) \<longleftrightarrow>
     (batch \<noteq> [] \<and> [] \<notin> set (map (\<lambda>item. fst (snd item)) batch) \<and>
      encoder_ids = map (pad_row (max_len (map fst batch)) PAD_IDX) (map fst batch) \<and>
      encoder_mask = make_mask encoder_ids \<and>
      dec_in_padded = map (pad_row (max_len (map (\<lambda>item. fst (snd item)) batch)) PAD_IDX)
                        (map (\<lambda>item. fst (snd item)) batch) \<and>
      (\<exists>tgts. map (\<lambda>item. snd (snd item)) batch = map Some tgts \<and>
              dec_tgt_padded = map (pad_row (max_len tgts) PAD_IDX) tgts) \<and>
      init = map (\<lambda>item. hd (fst (snd item))) batch)"
  unfolding normal_collate_fn_def Let_def
  by (auto simp: pad_sequence_Inr pad_sequence_Inl tensors_of_Inr tensors_of_map_Some
        first_tokens_Inr first_tokens_Inl comp_def split: sum.splits)

lemma test_collate_fn_Inr:
  "test_collate_fn batch = Inr (encoder_ids, encoder_mask, init) \<longleftrightarrow>
     (batch \<noteq> [] \<and> [] \<notin> set (map (\<lambda>item. fst (snd item)) batch) \<and>
      encoder_ids = map (pad_row (max_len (map fst batch)) PAD_IDX) (map fst batch) \<and>
      encoder_mask = make_mask encoder_ids \<and>
      init = map (\<lambda>item. hd (fst (snd item))) batch)"
  unfolding test_collate_fn_def Let_def
  by (auto simp: pad_sequence_Inr pad_sequence_Inl first_tokens_Inr first_tokens_Inl comp_def
        split: sum.splits)

lemma load_lines_Inr:
  "load_lines fs path = Inr qs \<longleftrightarrow> (\<exists>ls. fs path = Some ls \<and> qs = map strip ls)"
  by (auto simp: load_lines_def split: option.splits)

lemma process_data_labeled:
  assumes "spl \<noteq> ''test''"
  shows "process_data fs tk bos folder spl = Inr r \<longleftrightarrow>
     (\<exists>nl_queries sql_queries.
        load_lines fs (path_join folder (spl @ ''.nl'')) = Inr nl_queries \<and>
        load_lines fs (path_join folder (spl @ ''.sql'')) = Inr sql_queries \<and>
        r = (map (\<lambda>p. encode tk (fst p) True) (zip nl_queries sql_queries),
             map (\<lambda>p. bos # butlast (encode tk (snd p) True)) (zip nl_queries sql_queries),
             map (\<lambda>p. encode tk (snd p) True) (zip nl_queries sql_queries)))"
  using assms
  by (auto simp: process_data_def Let_def process_pairs_labeled split: sum.splits)

lemma process_data_test:
  "process_data fs tk bos folder ''test'' = Inr r \<longleftrightarrow>
     (\<exists>nl_queries.
        load_lines fs (path_join folder ''test.nl'') = Inr nl_queries \<and>
        r = (map (\<lambda>q. encode tk q True) nl_queries,
             replicate (length nl_queries) [bos],
             replicate (length nl_queries) []))"
  by (auto simp: process_data_def Let_def process_pairs_test map_replicate_const
        zip_replicate2 comp_def split: sum.splits)

lemma T5Dataset_init_Inr:
  "T5Dataset_init fs tk folder spl = Inr ds \<longleftrightarrow>
     (\<exists>bos. get_vocab tk ''<extra_id_0>'' = Some bos \<and>
        process_data fs tk bos folder spl =
          Inr (encoder_inputs ds, decoder_inputs ds, decoder_targets ds) \<and>
        split ds = spl \<and> bos_token_id ds = bos)"
  by (auto simp: T5Dataset_init_def split: option.splits sum.splits)


section \<open>The concrete data folder\<close>

lemma ex_train_nl:
  "ex_fs (path_join ''data'' (''train'' @ ''.nl'')) = Some [''ab'' @ [CHR 0x0A], '' c'' @ [CHR 0x0A]]"
  by (simp add: ex_fs_def path_join_def)

lemma ex_train_sql:
  "ex_fs (path_join ''data'' (''train'' @ ''.sql'')) = Some [''x'' @ [CHR 0x0A]]"
  by (simp add: ex_fs_def path_join_def)

lemma ex_test_nl:
  "ex_fs (path_join ''data'' (''test'' @ ''.nl'')) = Some [''ab'' @ [CHR 0x0A]]"
  by (simp add: ex_fs_def path_join_def)

lemma ex_vocab: "get_vocab ex_tk ''<extra_id_0>'' = Some 32099"
  by (simp add: ex_tk_def)

lemma ex_train:
  "T5Dataset_init ex_fs ex_tk ''data'' ''train'' =
     Inr \<lparr>split = ''train'', bos_token_id = 32099, encoder_inputs = [[97, 98, 1]],
           decoder_inputs = [[32099, 120]], decoder_targets = [[120, 1]]\<rparr>"
  by (simp add: T5Dataset_init_def ex_tk_def ex_fs_def process_data_def path_join_def
        load_lines_def strip_def isspace_def encode_def Let_def)

lemma ex_test:
  "T5Dataset_init ex_fs ex_tk ''data'' ''test'' =
     Inr \<lparr>split = ''test'', bos_token_id = 32099, encoder_inputs = [[97, 98, 1]],
           decoder_inputs = [[32099]], decoder_targets = [[]]\<rparr>"
  by (simp add: T5Dataset_init_def ex_tk_def ex_fs_def process_data_def path_join_def
        load_lines_def strip_def isspace_def encode_def Let_def)

section \<open>Dataset construction\<close>

text \<open>
  The training split of the concrete data folder has two question lines and one SQL line.
  Construction does not fail there: it returns a dataset with one example, built from
  the first line of each file.
\<close>

theorem C1_line_count_mismatch_counterexample:
  "ex_fs ''data/train.nl'' = Some [''ab'' @ [CHR 0x0A], '' c'' @ [CHR 0x0A]] \<and>
   ex_fs ''data/train.sql'' = Some [''x'' @ [CHR 0x0A]] \<and>
   T5Dataset_init ex_fs ex_tk ''data'' ''train'' =
     Inr \<lparr>split = ''train'', bos_token_id = 32099, encoder_inputs = [[97, 98, 1]],
           decoder_inputs = [[32099, 120]], decoder_targets = [[120, 1]]\<rparr>"
  by (simp add: T5Dataset_init_def ex_tk_def ex_fs_def process_data_def path_join_def
        load_lines_def strip_def isspace_def encode_def Let_def)

text \<open>
  Claim C1, as amended. For every labeled split whose two files exist, dataset
  construction succeeds whatever the two line counts are: \<open>zip\<close> pairs the lines by
  position, so the dataset holds as many examples as the shorter file has lines. No check
  of the line counts is made and no error is raised for a mismatch.
\<close>

theorem C1_line_counts_truncate:
  assumes "spl \<noteq> ''test''"
    and "get_vocab tk ''<extra_id_0>'' = Some bos"
    and "fs (path_join folder (spl @ ''.nl'')) = Some nl_lines"
    and "fs (path_join folder (spl @ ''.sql'')) = Some sql_lines"
  shows "\<exists>ds. T5Dataset_init fs tk folder spl = Inr ds \<and>
           T5Dataset_len ds = min (length nl_lines) (length sql_lines) \<and>
           length (decoder_inputs ds) = min (length nl_lines) (length sql_lines) \<and>
           length (decoder_targets ds) = min (length nl_lines) (length sql_lines)"
proof -
  let ?ps = "zip (map strip nl_lines) (map strip sql_lines)"
  let ?ds = "\<lparr>split = spl, bos_token_id = bos,
               encoder_inputs = map (\<lambda>p. encode tk (fst p) True) ?ps,
               decoder_inputs = map (\<lambda>p. bos # butlast (encode tk (snd p) True)) ?ps,
               decoder_targets = map (\<lambda>p. encode tk (snd p) True) ?ps\<rparr>"
  have "T5Dataset_init fs tk folder spl = Inr ?ds"
    using assms by (simp add: T5Dataset_init_Inr process_data_labeled load_lines_Inr)
  moreover have "T5Dataset_len ?ds = min (length nl_lines) (length sql_lines)"
    by (simp add: T5Dataset_len_def)
  ultimately show ?thesis by force
qed

theorem C1_line_counts_truncate_witness:
  "''train'' \<noteq> ''test'' \<and>
   length [''ab'' @ [CHR 0x0A], '' c'' @ [CHR 0x0A]] = 2 \<and> length [''x'' @ [CHR 0x0A]] = 1 \<and>
   (\<exists>ds. T5Dataset_init ex_fs ex_tk ''data'' ''train'' = Inr ds \<and> T5Dataset_len ds = 1 \<and>
         length (decoder_inputs ds) = 1 \<and> length (decoder_targets ds) = 1)"
proof -
  have h1: "''train'' \<noteq> ''test''" by simp
  show ?thesis
    using C1_line_counts_truncate [OF h1 ex_vocab ex_train_nl ex_train_sql] by simp
qed

text \<open>
  Claim C2. For every example of a labeled split (any split other than \<open>test\<close>), the
  encoder input is the tokenized question with special tokens (the raw tokens followed by
  the end marker), the decoder input is the beginning-of-sequence id followed by the
  tokenized SQL without its last token, and the decoder target is the tokenized SQL
  unmodified.
\<close>

theorem C2_labeled_example_framing:
  assumes "spl \<noteq> ''test''"
    and "T5Dataset_init fs tk folder spl = Inr ds"
  shows "\<exists>nl_queries sql_queries.
           load_lines fs (path_join folder (spl @ ''.nl'')) = Inr nl_queries \<and>
           load_lines fs (path_join folder (spl @ ''.sql'')) = Inr sql_queries \<and>
           T5Dataset_len ds = min (length nl_queries) (length sql_queries) \<and>
           length (decoder_inputs ds) = T5Dataset_len ds \<and>
           length (decoder_targets ds) = T5Dataset_len ds \<and>
           (\<forall>i < T5Dataset_len ds.
              encoder_inputs ds ! i = encode tk (nl_queries ! i) True \<and>
              encoder_inputs ds ! i = tokenize tk (nl_queries ! i) @ [eos_token_id tk] \<and>
              decoder_inputs ds ! i =
                [bos_token_id ds] @ butlast (encode tk (sql_queries ! i) True) \<and>
              decoder_targets ds ! i = encode tk (sql_queries ! i) True)"
proof -
  from assms obtain bos nl_queries sql_queries where
    nl: "load_lines fs (path_join folder (spl @ ''.nl'')) = Inr nl_queries" and
    sql: "load_lines fs (path_join folder (spl @ ''.sql'')) = Inr sql_queries" and
    bos: "bos_token_id ds = bos" and
    enc: "encoder_inputs ds = map (\<lambda>p. encode tk (fst p) True) (zip nl_queries sql_queries)" and
    dec: "decoder_inputs ds =
            map (\<lambda>p. bos # butlast (encode tk (snd p) True)) (zip nl_queries sql_queries)" and
    tgt: "decoder_targets ds = map (\<lambda>p. encode tk (snd p) True) (zip nl_queries sql_queries)"
    by (auto simp: T5Dataset_init_Inr process_data_labeled)
  have len: "T5Dataset_len ds = min (length nl_queries) (length sql_queries)"
    by (simp add: T5Dataset_len_def enc)
  have "\<forall>i < T5Dataset_len ds.
          encoder_inputs ds ! i = encode tk (nl_queries ! i) True \<and>
          encoder_inputs ds ! i = tokenize tk (nl_queries ! i) @ [eos_token_id tk] \<and>
          decoder_inputs ds ! i = [bos_token_id ds] @ butlast (encode tk (sql_queries ! i) True) \<and>
          decoder_targets ds ! i = encode tk (sql_queries ! i) True"
    by (simp add: len enc dec tgt bos encode_def)
  moreover have "length (decoder_inputs ds) = T5Dataset_len ds"
    by (simp add: len dec)
  moreover have "length (decoder_targets ds) = T5Dataset_len ds"
    by (simp add: len tgt)
  ultimately show ?thesis using nl sql len by blast
qed

theorem C2_labeled_example_framing_witness:
  "''train'' \<noteq> ''test'' \<and>
   T5Dataset_init ex_fs ex_tk ''data'' ''train'' =
     Inr \<lparr>split = ''train'', bos_token_id = 32099, encoder_inputs = [[97, 98, 1]],
           decoder_inputs = [[32099, 120]], decoder_targets = [[120, 1]]\<rparr> \<and>
   encode ex_tk ''ab'' True = [97, 98, 1] \<and>
   [32099] @ butlast (encode ex_tk ''x'' True) = [32099, 120] \<and>
   encode ex_tk ''x'' True = [120, 1] \<and>
   (\<exists>nl_queries sql_queries.
      load_lines ex_fs (path_join ''data'' (''train'' @ ''.nl'')) = Inr nl_queries \<and>
      load_lines ex_fs (path_join ''data'' (''train'' @ ''.sql'')) = Inr sql_queries \<and>
      [[97, 98, 1]] ! 0 = encode ex_tk (nl_queries ! 0) True \<and>
      [[32099, 120]] ! 0 = [32099] @ butlast (encode ex_tk (sql_queries ! 0) True) \<and>
      [[120, 1]] ! 0 = encode ex_tk (sql_queries ! 0) True)"
proof -
  have h1: "''train'' \<noteq> ''test''" by simp
  have e: "encode ex_tk ''ab'' True = [97, 98, 1] \<and>
           [32099] @ butlast (encode ex_tk ''x'' True) = [32099, 120] \<and>
           encode ex_tk ''x'' True = [120, 1]"
    by (simp add: encode_def ex_tk_def)
  from C2_labeled_example_framing [OF h1 ex_train]
  have "\<exists>nl_queries sql_queries.
      load_lines ex_fs (path_join ''data'' (''train'' @ ''.nl'')) = Inr nl_queries \<and>
      load_lines ex_fs (path_join ''data'' (''train'' @ ''.sql'')) = Inr sql_queries \<and>
      [[97, 98, 1]] ! 0 = encode ex_tk (nl_queries ! 0) True \<and>
      [[32099, 120]] ! 0 = [32099] @ butlast (encode ex_tk (sql_queries ! 0) True) \<and>
      [[120, 1]] ! 0 = encode ex_tk (sql_queries ! 0) True"
    by (simp add: T5Dataset_len_def) blast
  with h1 ex_train e show ?thesis by blast
qed

lemma encode_special_nonempty: "encode tk text True \<noteq> []"
  by (simp add: encode_def)

lemma decoder_inputs_start_with_bos:
  assumes "T5Dataset_init fs tk folder spl = Inr ds"
    and "i < length (decoder_inputs ds)"
  shows "decoder_inputs ds ! i \<noteq> [] \<and> hd (decoder_inputs ds ! i) = bos_token_id ds"
proof (cases "spl = ''test''")
  case True
  with assms show ?thesis
    by (auto simp: T5Dataset_init_Inr process_data_test)
next
  case False
  with assms show ?thesis
    by (auto simp: T5Dataset_init_Inr process_data_labeled)
qed

lemma dataset_lengths:
  assumes "T5Dataset_init fs tk folder spl = Inr ds"
  shows "length (decoder_inputs ds) = T5Dataset_len ds \<and>
         length (decoder_targets ds) = T5Dataset_len ds"
proof (cases "spl = ''test''")
  case True
  with assms show ?thesis
    by (auto simp: T5Dataset_init_Inr process_data_test T5Dataset_len_def)
next
  case False
  with assms show ?thesis
    by (auto simp: T5Dataset_init_Inr process_data_labeled T5Dataset_len_def)
qed

lemma py_index_Inr:
  "py_index xs i = Inr x \<longleftrightarrow>
     (- int (length xs) \<le> i \<and> i < int (length xs) \<and>
      x = xs ! nat (if i < 0 then i + int (length xs) else i))"
  by (auto simp: py_index_def Let_def)

text \<open>
  Claim C3. For every example of a labeled split that the builder produces, the decoder
  input and the decoder target have the same length: the beginning-of-sequence id takes
  the place of the dropped last token, and the tokenized SQL is never empty because it
  ends with the end marker.
\<close>

theorem C3_decoder_lengths_agree:
  assumes "spl \<noteq> ''test''"
    and "T5Dataset_init fs tk folder spl = Inr ds"
  shows "length (decoder_inputs ds) = length (decoder_targets ds) \<and>
         (\<forall>i < T5Dataset_len ds.
            length (decoder_inputs ds ! i) = length (decoder_targets ds ! i))"
proof -
  from assms obtain bos nl_queries sql_queries where
    enc: "encoder_inputs ds = map (\<lambda>p. encode tk (fst p) True) (zip nl_queries sql_queries)" and
    dec: "decoder_inputs ds =
            map (\<lambda>p. bos # butlast (encode tk (snd p) True)) (zip nl_queries sql_queries)" and
    tgt: "decoder_targets ds = map (\<lambda>p. encode tk (snd p) True) (zip nl_queries sql_queries)"
    by (auto simp: T5Dataset_init_Inr process_data_labeled)
  have "length (bos # butlast (encode tk s True)) = length (encode tk s True)" for s
    using encode_special_nonempty [of tk s] by (cases "encode tk s True") auto
  then show ?thesis
    by (simp add: T5Dataset_len_def enc dec tgt)
qed

theorem C3_decoder_lengths_agree_witness:
  "''train'' \<noteq> ''test'' \<and>
   T5Dataset_init ex_fs ex_tk ''data'' ''train'' =
     Inr \<lparr>split = ''train'', bos_token_id = 32099, encoder_inputs = [[97, 98, 1]],
           decoder_inputs = [[32099, 120]], decoder_targets = [[120, 1]]\<rparr> \<and>
   length ([[32099, 120]] ! 0 :: int list) = length ([[120, 1]] ! 0 :: int list)"
proof -
  have h1: "''train'' \<noteq> ''test''" by simp
  from C3_decoder_lengths_agree [OF h1 ex_train]
  have "length ([[32099, 120]] ! 0 :: int list) = length ([[120, 1]] ! 0 :: int list)"
    by (simp add: T5Dataset_len_def)
  with h1 ex_train show ?thesis by blast
qed

text \<open>
  Claim C5. For the label-less \<open>test\<close> split, whose SQL file is not read, every example
  has the one-element decoder input \<open>[BOS]\<close> and the empty decoder target.
\<close>

theorem C5_test_split_framing:
  assumes "get_vocab tk ''<extra_id_0>'' = Some bos"
    and "fs (path_join folder (''test'' @ ''.nl'')) = Some nl_lines"
  shows "\<exists>ds. T5Dataset_init fs tk folder ''test'' = Inr ds \<and>
           T5Dataset_len ds = length nl_lines \<and>
           length (decoder_inputs ds) = length nl_lines \<and>
           length (decoder_targets ds) = length nl_lines \<and>
           bos_token_id ds = bos \<and>
           (\<forall>i < length nl_lines.
              decoder_inputs ds ! i = [bos] \<and>
              length (decoder_inputs ds ! i) = 1 \<and>
              decoder_targets ds ! i = [])"
proof -
  let ?ds = "\<lparr>split = ''test'', bos_token_id = bos,
               encoder_inputs = map (\<lambda>q. encode tk q True) (map strip nl_lines),
               decoder_inputs = replicate (length nl_lines) [bos],
               decoder_targets = replicate (length nl_lines) []\<rparr>"
  have "T5Dataset_init fs tk folder ''test'' = Inr ?ds"
    using assms by (simp add: T5Dataset_init_Inr process_data_test load_lines_Inr)
  moreover have "T5Dataset_len ?ds = length nl_lines"
    by (simp add: T5Dataset_len_def)
  ultimately show ?thesis by force
qed

theorem C5_test_split_framing_witness:
  "\<exists>ds. T5Dataset_init ex_fs ex_tk ''data'' ''test'' = Inr ds \<and>
         T5Dataset_len ds = 1 \<and> decoder_inputs ds ! 0 = [32099] \<and> decoder_targets ds ! 0 = []"
  using C5_test_split_framing [of ex_tk 32099 ex_fs "''data''", OF ex_vocab ex_test_nl]
  by simp blast

section \<open>Item access\<close>

text \<open>
  Claim C10. For the \<open>test\<close> split the dataset stores the empty sequence as the decoder
  target of every example, yet \<open>__getitem__\<close> returns \<open>None\<close> as the third component;
  for every other split it returns the stored decoder target. The index is any valid
  Python index of the dataset, negative ones included.
\<close>

theorem C10_getitem_target:
  assumes "T5Dataset_init fs tk folder spl = Inr ds"
    and "- int (T5Dataset_len ds) \<le> idx"
    and "idx < int (T5Dataset_len ds)"
    and "k = nat (if idx < 0 then idx + int (T5Dataset_len ds) else idx)"
  shows "if spl = ''test''
         then decoder_targets ds ! k = [] \<and>
              getitem ds idx = Inr (encoder_inputs ds ! k, decoder_inputs ds ! k, None)
         else getitem ds idx =
                Inr (encoder_inputs ds ! k, decoder_inputs ds ! k, Some (decoder_targets ds ! k))"
proof -
  have sp: "split ds = spl"
    using assms(1) by (auto simp: T5Dataset_init_Inr)
  have lens: "length (decoder_inputs ds) = T5Dataset_len ds"
             "length (decoder_targets ds) = T5Dataset_len ds"
             "length (encoder_inputs ds) = T5Dataset_len ds"
    using dataset_lengths [OF assms(1)] by (simp_all add: T5Dataset_len_def)
  have k: "k < T5Dataset_len ds"
    using assms(2,3,4) by (auto simp: nat_less_iff)
  have idx: "py_index (encoder_inputs ds) idx = Inr (encoder_inputs ds ! k)"
            "py_index (decoder_inputs ds) idx = Inr (decoder_inputs ds ! k)"
            "py_index (decoder_targets ds) idx = Inr (decoder_targets ds ! k)"
    using assms(2,3,4) by (simp_all add: py_index_Inr lens)
  show ?thesis
  proof (cases "spl = ''test''")
    case True
    have "decoder_targets ds ! k = []"
      using assms(1) True k lens by (auto simp: T5Dataset_init_Inr process_data_test)
    with True sp idx show ?thesis by (simp add: getitem_def)
  next
    case False
    with sp idx show ?thesis by (simp add: getitem_def)
  qed
qed

theorem C10_getitem_target_witness:
  "getitem \<lparr>split = ''test'', bos_token_id = 32099, encoder_inputs = [[97, 98, 1]],
            decoder_inputs = [[32099]], decoder_targets = [[]]\<rparr> 0 =
     Inr ([97, 98, 1], [32099], None) \<and>
   getitem \<lparr>split = ''train'', bos_token_id = 32099, encoder_inputs = [[97, 98, 1]],
           decoder_inputs = [[32099, 120]], decoder_targets = [[120, 1]]\<rparr> (- 1) =
     Inr ([97, 98, 1], [32099, 120], Some [120, 1])"
proof -
  have a: "getitem \<lparr>split = ''test'', bos_token_id = 32099, encoder_inputs = [[97, 98, 1]],
            decoder_inputs = [[32099]], decoder_targets = [[]]\<rparr> 0 =
     Inr ([97, 98, 1], [32099], None)"
    using C10_getitem_target [OF ex_test, of 0 0] by (simp add: T5Dataset_len_def)
  have b: "getitem \<lparr>split = ''train'', bos_token_id = 32099, encoder_inputs = [[97, 98, 1]],
           decoder_inputs = [[32099, 120]], decoder_targets = [[120, 1]]\<rparr> (- 1) =
     Inr ([97, 98, 1], [32099, 120], Some [120, 1])"
    using C10_getitem_target [OF ex_train, of "- 1" 0] by (simp add: T5Dataset_len_def)
  from a b show ?thesis by blast
qed


section \<open>Initial decoder inputs\<close>

lemma py_index_in_range: "py_index xs i = Inr x \<Longrightarrow> \<exists>k < length xs. x = xs ! k"
proof -
  assume a: "py_index xs i = Inr x"
  let ?j = "if i < 0 then i + int (length xs) else i"
  from a have r: "0 \<le> ?j" "?j < int (length xs)" "x = xs ! nat ?j"
    by (simp_all add: py_index_def Let_def split: if_splits)
  from r(1,2) have "nat ?j < length xs" by (simp add: nat_less_iff)
  with r(3) show ?thesis by blast
qed

lemma getitem_decoder_input:
  assumes "getitem ds idx = Inr item"
  shows "\<exists>k < length (decoder_inputs ds). fst (snd item) = decoder_inputs ds ! k"
proof -
  from assms have "py_index (decoder_inputs ds) idx = Inr (fst (snd item))"
    by (auto simp: getitem_def split: if_splits sum.splits)
  then show ?thesis by (rule py_index_in_range)
qed

lemma getitem_target:
  assumes "getitem ds idx = Inr item" and "split ds \<noteq> ''test''"
  shows "\<exists>t. snd (snd item) = Some t"
  using assms by (auto simp: getitem_def split: if_splits sum.splits)

lemma items_of_dataset:
  assumes init: "T5Dataset_init fs tk folder spl = Inr ds"
    and items: "\<forall>item \<in> set batch. \<exists>idx. getitem ds idx = Inr item"
  shows "[] \<notin> set (map (\<lambda>item. fst (snd item)) batch) \<and>
         map (\<lambda>item. hd (fst (snd item))) batch = replicate (length batch) (bos_token_id ds)"
proof -
  have each: "fst (snd item) \<noteq> [] \<and> hd (fst (snd item)) = bos_token_id ds"
    if "item \<in> set batch" for item
  proof -
    from items that obtain idx where "getitem ds idx = Inr item" by blast
    from getitem_decoder_input [OF this] obtain k where
      "k < length (decoder_inputs ds)" "fst (snd item) = decoder_inputs ds ! k" by blast
    with decoder_inputs_start_with_bos [OF init] show ?thesis by simp
  qed
  have "map (\<lambda>item. hd (fst (snd item))) batch = map (\<lambda>item. bos_token_id ds) batch"
    using each by (intro map_cong) auto
  moreover have "[] \<notin> set (map (\<lambda>item. fst (snd item)) batch)"
  proof
    assume "[] \<in> set (map (\<lambda>item. fst (snd item)) batch)"
    then obtain item where "item \<in> set batch" "fst (snd item) = []" by auto
    with each [of item] show False by simp
  qed
  ultimately show ?thesis by (simp add: map_replicate_const)
qed

lemma some_targets:
  "(\<And>item. item \<in> set batch \<Longrightarrow> \<exists>t. snd (snd item) = Some t) \<Longrightarrow>
   \<exists>tgts. map (\<lambda>item. snd (snd item)) batch = map Some tgts"
proof (induction batch)
  case Nil
  then show ?case by simp
next
  case (Cons a batch)
  have "\<exists>tgts. map (\<lambda>item. snd (snd item)) batch = map Some tgts"
    by (rule Cons.IH) (rule Cons.prems, simp)
  then obtain tgts where t: "map (\<lambda>item. snd (snd item)) batch = map Some tgts" by blast
  have "\<exists>x. snd (snd a) = Some x"
    by (rule Cons.prems) simp
  then obtain x where "snd (snd a) = Some x" by blast
  with t have "map (\<lambda>item. snd (snd item)) (a # batch) = map Some (x # tgts)" by simp
  then show ?case by blast
qed

text \<open>
  Claim C4. In every split, every decoder input of a constructed dataset is non-empty
  and starts with the beginning-of-sequence id, which is the vocabulary entry of
  \<open><extra_id_0>\<close>. Whenever a collator returns, its vector of initial decoder
  inputs has one entry per example, entry \<open>i\<close> being the first decoder-input token of
  example \<open>i\<close>; for a batch of items of the dataset every entry is the
  beginning-of-sequence id. Both collators do return on a non-empty batch of items of
  the dataset (the labeled one on a labeled split).
\<close>

theorem C4_first_decoder_token_is_bos:
  assumes init: "T5Dataset_init fs tk folder spl = Inr ds"
  shows "get_vocab tk ''<extra_id_0>'' = Some (bos_token_id ds) \<and>
         length (decoder_inputs ds) = T5Dataset_len ds \<and>
         (\<forall>i < T5Dataset_len ds.
            decoder_inputs ds ! i \<noteq> [] \<and> decoder_inputs ds ! i ! 0 = bos_token_id ds) \<and>
         (\<forall>batch ids mask dec tgt v.
            normal_collate_fn batch = Inr (ids, mask, dec, tgt, v) \<longrightarrow>
              length v = length batch \<and>
              (\<forall>i < length batch.
                 fst (snd (batch ! i)) \<noteq> [] \<and> v ! i = fst (snd (batch ! i)) ! 0) \<and>
              ((\<forall>item \<in> set batch. \<exists>idx. getitem ds idx = Inr item) \<longrightarrow>
                 v = replicate (length batch) (bos_token_id ds))) \<and>
         (\<forall>batch ids mask v.
            test_collate_fn batch = Inr (ids, mask, v) \<longrightarrow>
              length v = length batch \<and>
              (\<forall>i < length batch.
                 fst (snd (batch ! i)) \<noteq> [] \<and> v ! i = fst (snd (batch ! i)) ! 0) \<and>
              ((\<forall>item \<in> set batch. \<exists>idx. getitem ds idx = Inr item) \<longrightarrow>
                 v = replicate (length batch) (bos_token_id ds))) \<and>
         (\<forall>batch. batch \<noteq> [] \<and> (\<forall>item \<in> set batch. \<exists>idx. getitem ds idx = Inr item) \<longrightarrow>
            (\<exists>out. test_collate_fn batch = Inr out) \<and>
            (spl \<noteq> ''test'' \<longrightarrow> (\<exists>out. normal_collate_fn batch = Inr out)))"
proof -
  have vocab: "get_vocab tk ''<extra_id_0>'' = Some (bos_token_id ds)"
    using init by (auto simp: T5Dataset_init_Inr)
  have len: "length (decoder_inputs ds) = T5Dataset_len ds"
    using dataset_lengths [OF init] by simp
  have first: "\<forall>i < T5Dataset_len ds.
      decoder_inputs ds ! i \<noteq> [] \<and> decoder_inputs ds ! i ! 0 = bos_token_id ds"
  proof (intro allI impI)
    fix i
    assume "i < T5Dataset_len ds"
    then have "decoder_inputs ds ! i \<noteq> [] \<and> hd (decoder_inputs ds ! i) = bos_token_id ds"
      using decoder_inputs_start_with_bos [OF init, of i] len by simp
    then show "decoder_inputs ds ! i \<noteq> [] \<and> decoder_inputs ds ! i ! 0 = bos_token_id ds"
      by (cases "decoder_inputs ds ! i") auto
  qed
  have firsts: "length v = length batch \<and>
      (\<forall>i < length batch. fst (snd (batch ! i)) \<noteq> [] \<and> v ! i = fst (snd (batch ! i)) ! 0)"
    if "[] \<notin> set (map (\<lambda>item. fst (snd item)) batch)"
      and "v = map (\<lambda>item. hd (fst (snd item))) batch" for batch :: "item list" and v
  proof -
    have "fst (snd (batch ! i)) \<noteq> []" if "i < length batch" for i
      using that \<open>[] \<notin> set (map (\<lambda>item. fst (snd item)) batch)\<close>
      by (metis length_map nth_map nth_mem)
    then show ?thesis using that(2) by (simp add: hd_conv_nth)
  qed
  have normal: "\<forall>batch ids mask dec tgt v.
      normal_collate_fn batch = Inr (ids, mask, dec, tgt, v) \<longrightarrow>
        length v = length batch \<and>
        (\<forall>i < length batch.
           fst (snd (batch ! i)) \<noteq> [] \<and> v ! i = fst (snd (batch ! i)) ! 0) \<and>
        ((\<forall>item \<in> set batch. \<exists>idx. getitem ds idx = Inr item) \<longrightarrow>
           v = replicate (length batch) (bos_token_id ds))"
  proof (intro allI impI)
    fix batch ids mask dec tgt v
    assume "normal_collate_fn batch = Inr (ids, mask, dec, tgt, v)"
    then have ne: "[] \<notin> set (map (\<lambda>item. fst (snd item)) batch)"
      and v: "v = map (\<lambda>item. hd (fst (snd item))) batch"
      by (simp_all add: normal_collate_fn_Inr)
    show "length v = length batch \<and>
        (\<forall>i < length batch.
           fst (snd (batch ! i)) \<noteq> [] \<and> v ! i = fst (snd (batch ! i)) ! 0) \<and>
        ((\<forall>item \<in> set batch. \<exists>idx. getitem ds idx = Inr item) \<longrightarrow>
           v = replicate (length batch) (bos_token_id ds))"
      using firsts [OF ne v] items_of_dataset [OF init, of batch] v by blast
  qed
  have test: "\<forall>batch ids mask v.
      test_collate_fn batch = Inr (ids, mask, v) \<longrightarrow>
        length v = length batch \<and>
        (\<forall>i < length batch.
           fst (snd (batch ! i)) \<noteq> [] \<and> v ! i = fst (snd (batch ! i)) ! 0) \<and>
        ((\<forall>item \<in> set batch. \<exists>idx. getitem ds idx = Inr item) \<longrightarrow>
           v = replicate (length batch) (bos_token_id ds))"
  proof (intro allI impI)
    fix batch ids mask v
    assume "test_collate_fn batch = Inr (ids, mask, v)"
    then have ne: "[] \<notin> set (map (\<lambda>item. fst (snd item)) batch)"
      and v: "v = map (\<lambda>item. hd (fst (snd item))) batch"
      by (simp_all add: test_collate_fn_Inr)
    show "length v = length batch \<and>
        (\<forall>i < length batch.
           fst (snd (batch ! i)) \<noteq> [] \<and> v ! i = fst (snd (batch ! i)) ! 0) \<and>
        ((\<forall>item \<in> set batch. \<exists>idx. getitem ds idx = Inr item) \<longrightarrow>
           v = replicate (length batch) (bos_token_id ds))"
      using firsts [OF ne v] items_of_dataset [OF init, of batch] v by blast
  qed
  have total: "\<forall>batch. batch \<noteq> [] \<and> (\<forall>item \<in> set batch. \<exists>idx. getitem ds idx = Inr item) \<longrightarrow>
      (\<exists>out. test_collate_fn batch = Inr out) \<and>
      (spl \<noteq> ''test'' \<longrightarrow> (\<exists>out. normal_collate_fn batch = Inr out))"
  proof (intro allI impI, elim conjE)
    fix batch :: "item list"
    assume ne: "batch \<noteq> []"
      and items: "\<forall>item \<in> set batch. \<exists>idx. getitem ds idx = Inr item"
    have dec: "[] \<notin> set (map (\<lambda>item. fst (snd item)) batch)"
      using items_of_dataset [OF init items] by simp
    have t: "\<exists>out. test_collate_fn batch = Inr out"
      using ne dec by (simp add: test_collate_fn_Inr)
    have n: "\<exists>out. normal_collate_fn batch = Inr out" if lab: "spl \<noteq> ''test''"
    proof -
      have sp: "split ds \<noteq> ''test''"
        using init lab by (auto simp: T5Dataset_init_Inr)
      have "\<exists>t. snd (snd item) = Some t" if "item \<in> set batch" for item
        using items that getitem_target sp by blast
      from some_targets [OF this] obtain tgts where
        "map (\<lambda>item. snd (snd item)) batch = map Some tgts" by blast
      with ne dec show ?thesis by (simp add: normal_collate_fn_Inr)
    qed
    from t n show "(\<exists>out. test_collate_fn batch = Inr out) \<and>
      (spl \<noteq> ''test'' \<longrightarrow> (\<exists>out. normal_collate_fn batch = Inr out))" by blast
  qed
  from vocab len first normal test total show ?thesis by (intro conjI)
qed


theorem C4_first_decoder_token_is_bos_witness:
  "T5Dataset_init ex_fs ex_tk ''data'' ''train'' =
     Inr \<lparr>split = ''train'', bos_token_id = 32099, encoder_inputs = [[97, 98, 1]],
           decoder_inputs = [[32099, 120]], decoder_targets = [[120, 1]]\<rparr> \<and>
   getitem \<lparr>split = ''train'', bos_token_id = 32099, encoder_inputs = [[97, 98, 1]],
           decoder_inputs = [[32099, 120]], decoder_targets = [[120, 1]]\<rparr> 0 =
     Inr ([97, 98, 1], [32099, 120], Some [120, 1]) \<and>
   normal_collate_fn [([97, 98, 1], [32099, 120], Some [120, 1])] =
     Inr ([[97, 98, 1]], [[1, 1, 1]], [[32099, 120]], [[120, 1]], [32099]) \<and>
   test_collate_fn [([97, 98, 1], [32099, 120], Some [120, 1])] =
     Inr ([[97, 98, 1]], [[1, 1, 1]], [32099]) \<and>
   [32099] = replicate (length [([97, 98, 1], [32099, 120], Some [120, 1]) :: item]) (32099 :: int)"
proof -
  let ?ds = "\<lparr>split = ''train'', bos_token_id = 32099, encoder_inputs = [[97, 98, 1]],
           decoder_inputs = [[32099, 120]], decoder_targets = [[120, 1]]\<rparr>"
  let ?item = "([97, 98, 1], [32099, 120], Some [120, 1]) :: item"
  have g: "getitem ?ds 0 = Inr ?item"
    by (simp add: getitem_def py_index_def)
  have n: "normal_collate_fn [?item] =
      Inr ([[97, 98, 1]], [[1, 1, 1]], [[32099, 120]], [[120, 1]], [32099])"
    by (simp add: normal_collate_fn_def pad_sequence_def pad_row_def make_mask_def PAD_IDX_def)
  have t: "test_collate_fn [?item] = Inr ([[97, 98, 1]], [[1, 1, 1]], [32099])"
    by (simp add: test_collate_fn_def pad_sequence_def pad_row_def make_mask_def PAD_IDX_def)
  have items: "\<forall>item \<in> set [?item]. \<exists>idx. getitem ?ds idx = Inr item"
    using g by auto
  have "\<forall>batch ids mask dec tgt v.
      normal_collate_fn batch = Inr (ids, mask, dec, tgt, v) \<longrightarrow>
        length v = length batch \<and>
        (\<forall>i < length batch.
           fst (snd (batch ! i)) \<noteq> [] \<and> v ! i = fst (snd (batch ! i)) ! 0) \<and>
        ((\<forall>item \<in> set batch. \<exists>idx. getitem ?ds idx = Inr item) \<longrightarrow>
           v = replicate (length batch) (bos_token_id ?ds))"
    using C4_first_decoder_token_is_bos [OF ex_train] by blast
  with n items have "[32099] = replicate (length [?item]) (bos_token_id ?ds)"
    by blast
  then have r: "[32099] = replicate (length [?item]) (32099 :: int)"
    by simp
  from ex_train g n t r show ?thesis by (intro conjI)
qed

section \<open>The attention mask and dynamic padding\<close>

lemma make_mask_shape:
  "length (make_mask ids) = length ids \<and>
   (\<forall>i < length ids. length (make_mask ids ! i) = length (ids ! i))"
  by (simp add: make_mask_def)

lemma make_mask_entry:
  assumes "i < length ids" and "j < length (ids ! i)"
  shows "make_mask ids ! i ! j = (if ids ! i ! j = PAD_IDX then 0 else 1)"
  using assms by (simp add: make_mask_def)

lemma mask_property:
  assumes "emask = make_mask ids"
  shows "length emask = length ids \<and>
         (\<forall>i < length ids. length (emask ! i) = length (ids ! i) \<and>
            (\<forall>j < length (ids ! i).
               (emask ! i ! j = 1 \<longleftrightarrow> ids ! i ! j \<noteq> PAD_IDX) \<and>
               (emask ! i ! j = 0 \<longleftrightarrow> ids ! i ! j = PAD_IDX)))"
  using assms by (simp add: make_mask_shape make_mask_entry)

text \<open>
  Claim C6. For every batch that either collator returns, the encoder mask has the shape
  of the encoder ids, and for all indices in range the mask entry is 1 exactly when the
  encoder id differs from the pad id 0 (and 0 exactly when it equals the pad id). This
  holds whichever token ids occur, so in particular when no real token id equals 0.
\<close>

theorem C6_mask_marks_non_padding:
  "(normal_collate_fn batch = Inr (ids, emask, dec, tgt, v) \<longrightarrow>
      length ids = length batch \<and> length emask = length ids \<and>
      (\<forall>i < length ids. length (emask ! i) = length (ids ! i) \<and>
         (\<forall>j < length (ids ! i).
            (emask ! i ! j = 1 \<longleftrightarrow> ids ! i ! j \<noteq> PAD_IDX) \<and>
            (emask ! i ! j = 0 \<longleftrightarrow> ids ! i ! j = PAD_IDX)))) \<and>
   (test_collate_fn batch = Inr (ids', emask', v') \<longrightarrow>
      length ids' = length batch \<and> length emask' = length ids' \<and>
      (\<forall>i < length ids'. length (emask' ! i) = length (ids' ! i) \<and>
         (\<forall>j < length (ids' ! i).
            (emask' ! i ! j = 1 \<longleftrightarrow> ids' ! i ! j \<noteq> PAD_IDX) \<and>
            (emask' ! i ! j = 0 \<longleftrightarrow> ids' ! i ! j = PAD_IDX)))) \<and>
   PAD_IDX = 0"
proof (intro conjI impI)
  assume a: "normal_collate_fn batch = Inr (ids, emask, dec, tgt, v)"
  then have m: "emask = make_mask ids" by (simp add: normal_collate_fn_Inr)
  from a show "length ids = length batch" by (simp add: normal_collate_fn_Inr)
  from mask_property [OF m] show "length emask = length ids" by blast
  from mask_property [OF m]
  show "\<forall>i < length ids. length (emask ! i) = length (ids ! i) \<and>
         (\<forall>j < length (ids ! i).
            (emask ! i ! j = 1 \<longleftrightarrow> ids ! i ! j \<noteq> PAD_IDX) \<and>
            (emask ! i ! j = 0 \<longleftrightarrow> ids ! i ! j = PAD_IDX))" by blast
next
  assume a: "test_collate_fn batch = Inr (ids', emask', v')"
  then have m: "emask' = make_mask ids'" by (simp add: test_collate_fn_Inr)
  from a show "length ids' = length batch" by (simp add: test_collate_fn_Inr)
  from mask_property [OF m] show "length emask' = length ids'" by blast
  from mask_property [OF m]
  show "\<forall>i < length ids'. length (emask' ! i) = length (ids' ! i) \<and>
         (\<forall>j < length (ids' ! i).
            (emask' ! i ! j = 1 \<longleftrightarrow> ids' ! i ! j \<noteq> PAD_IDX) \<and>
            (emask' ! i ! j = 0 \<longleftrightarrow> ids' ! i ! j = PAD_IDX))" by blast
next
  show "PAD_IDX = 0" by (simp add: PAD_IDX_def)
qed

lemma ex_normal_batch:
  "normal_collate_fn [([5, 6, 7], [9], Some [3]), ([5, 6, 7, 8, 4], [9, 3, 4], Some [3, 2])] =
     Inr ([[5, 6, 7, 0, 0], [5, 6, 7, 8, 4]], [[1, 1, 1, 0, 0], [1, 1, 1, 1, 1]],
          [[9, 0, 0], [9, 3, 4]], [[3, 0], [3, 2]], [9, 9])"
  by (simp add: normal_collate_fn_def pad_sequence_def pad_row_def make_mask_def PAD_IDX_def)

lemma ex_test_batch:
  "test_collate_fn [([5, 6, 7], [9], None), ([5, 6, 7, 8, 4], [9], None)] =
     Inr ([[5, 6, 7, 0, 0], [5, 6, 7, 8, 4]], [[1, 1, 1, 0, 0], [1, 1, 1, 1, 1]], [9, 9])"
  by (simp add: test_collate_fn_def pad_sequence_def pad_row_def make_mask_def PAD_IDX_def)

theorem C6_mask_marks_non_padding_witness:
  "normal_collate_fn [([5, 6, 7], [9], Some [3]), ([5, 6, 7, 8, 4], [9, 3, 4], Some [3, 2])] =
     Inr ([[5, 6, 7, 0, 0], [5, 6, 7, 8, 4]], [[1, 1, 1, 0, 0], [1, 1, 1, 1, 1]],
          [[9, 0, 0], [9, 3, 4]], [[3, 0], [3, 2]], [9, 9]) \<and>
   test_collate_fn [([5, 6, 7], [9], None), ([5, 6, 7, 8, 4], [9], None)] =
     Inr ([[5, 6, 7, 0, 0], [5, 6, 7, 8, 4]], [[1, 1, 1, 0, 0], [1, 1, 1, 1, 1]], [9, 9]) \<and>
   ([[1, 1, 1, 0, 0], [1, 1, 1, 1, 1]] ! 0 ! 3 = (1 :: int)) =
     ([[5, 6, 7, 0, 0], [5, 6, 7, 8, 4]] ! 0 ! 3 \<noteq> PAD_IDX) \<and>
   ([[1, 1, 1, 0, 0], [1, 1, 1, 1, 1]] ! 1 ! 4 = (1 :: int)) =
     ([[5, 6, 7, 0, 0], [5, 6, 7, 8, 4]] ! 1 ! 4 \<noteq> PAD_IDX)"
proof -
  let ?ids = "[[5, 6, 7, 0, 0], [5, 6, 7, 8, 4]] :: tensor2"
  let ?mask = "[[1, 1, 1, 0, 0], [1, 1, 1, 1, 1]] :: tensor2"
  from C6_mask_marks_non_padding
    [of "[([5, 6, 7], [9], Some [3]), ([5, 6, 7, 8, 4], [9, 3, 4], Some [3, 2])]"
        ?ids ?mask "[[9, 0, 0], [9, 3, 4]]" "[[3, 0], [3, 2]]" "[9, 9]"] ex_normal_batch
  have q: "\<forall>i < length ?ids. length (?mask ! i) = length (?ids ! i) \<and>
         (\<forall>j < length (?ids ! i).
            (?mask ! i ! j = 1 \<longleftrightarrow> ?ids ! i ! j \<noteq> PAD_IDX) \<and>
            (?mask ! i ! j = 0 \<longleftrightarrow> ?ids ! i ! j = PAD_IDX))"
    by blast
  have "0 < length ?ids" by simp
  with q have "\<forall>j < length (?ids ! 0).
            (?mask ! 0 ! j = 1 \<longleftrightarrow> ?ids ! 0 ! j \<noteq> PAD_IDX) \<and>
            (?mask ! 0 ! j = 0 \<longleftrightarrow> ?ids ! 0 ! j = PAD_IDX)"
    by blast
  moreover have "3 < length (?ids ! 0)" by simp
  ultimately have a: "(?mask ! 0 ! 3 = 1) = (?ids ! 0 ! 3 \<noteq> PAD_IDX)"
    by blast
  have "1 < length ?ids" by simp
  with q have "\<forall>j < length (?ids ! 1).
            (?mask ! 1 ! j = 1 \<longleftrightarrow> ?ids ! 1 ! j \<noteq> PAD_IDX) \<and>
            (?mask ! 1 ! j = 0 \<longleftrightarrow> ?ids ! 1 ! j = PAD_IDX)"
    by blast
  moreover have "4 < length (?ids ! 1)" by simp
  ultimately have b: "(?mask ! 1 ! 4 = 1) = (?ids ! 1 ! 4 \<noteq> PAD_IDX)"
    by blast
  note a b
  with ex_normal_batch ex_test_batch show ?thesis by blast
qed

lemma padded_row:
  assumes "ss \<noteq> []" and "i < length ss"
  shows "map (pad_row (max_len ss) p) ss ! i =
           ss ! i @ replicate (Max (set (map length ss)) - length (ss ! i)) p \<and>
         length (map (pad_row (max_len ss) p) ss ! i) = Max (set (map length ss))"
proof -
  have m: "max_len ss = Max (set (map length ss))"
    using assms(1) by (rule max_len_Max)
  have "length (ss ! i) \<le> max_len ss"
    using assms(2) by (simp add: max_len_ge)
  then show ?thesis
    using assms(2) m by (simp add: pad_row_def)
qed

text \<open>
  Claim C7. For every non-empty batch (of examples with a non-empty decoder input and a
  decoder target, as the dataset of a labeled split produces them) the collator returns,
  with one row per example in the order of the input: row \<open>i\<close> of the encoder ids is
  the encoder input of example \<open>i\<close> followed by pad ids up to the maximum encoder
  length of this batch; the decoder inputs and the decoder targets are padded in the
  same way, each to the maximum length of its own field in this batch. The padding
  lengths are functions of the batch alone. The collator of the test split returns the
  same encoder ids and mask.
\<close>

theorem C7_dynamic_padding:
  assumes ne: "batch \<noteq> []"
    and dec: "\<forall>item \<in> set batch. fst (snd item) \<noteq> []"
    and tgt: "map (\<lambda>item. snd (snd item)) batch = map Some tgts"
  shows "\<exists>ids emask dec_p tgt_p v.
     normal_collate_fn batch = Inr (ids, emask, dec_p, tgt_p, v) \<and>
     test_collate_fn batch = Inr (ids, emask, v) \<and>
     length ids = length batch \<and> length emask = length batch \<and>
     length dec_p = length batch \<and> length tgt_p = length batch \<and>
     length v = length batch \<and>
     (\<forall>i < length batch.
        length (ids ! i) = Max (set (map length (map fst batch))) \<and>
        length (emask ! i) = Max (set (map length (map fst batch))) \<and>
        ids ! i = fst (batch ! i) @
          replicate (Max (set (map length (map fst batch))) - length (fst (batch ! i))) PAD_IDX \<and>
        length (dec_p ! i) = Max (set (map length (map (\<lambda>item. fst (snd item)) batch))) \<and>
        dec_p ! i = fst (snd (batch ! i)) @
          replicate (Max (set (map length (map (\<lambda>item. fst (snd item)) batch))) -
                     length (fst (snd (batch ! i)))) PAD_IDX \<and>
        snd (snd (batch ! i)) = Some (tgts ! i) \<and>
        length (tgt_p ! i) = Max (set (map length tgts)) \<and>
        tgt_p ! i = tgts ! i @
          replicate (Max (set (map length tgts)) - length (tgts ! i)) PAD_IDX \<and>
        v ! i = fst (snd (batch ! i)) ! 0)"
proof -
  let ?encs = "map fst batch"
  let ?decs = "map (\<lambda>item. fst (snd item)) batch"
  let ?ids = "map (pad_row (max_len ?encs) PAD_IDX) ?encs"
  let ?dec_p = "map (pad_row (max_len ?decs) PAD_IDX) ?decs"
  let ?tgt_p = "map (pad_row (max_len tgts) PAD_IDX) tgts"
  let ?v = "map (\<lambda>item. hd (fst (snd item))) batch"
  have lt: "length tgts = length batch"
    using tgt by (metis length_map)
  have tne: "tgts \<noteq> []"
    using ne lt by auto
  have dne: "[] \<notin> set ?decs"
    using dec by auto
  have n: "normal_collate_fn batch = Inr (?ids, make_mask ?ids, ?dec_p, ?tgt_p, ?v)"
    using ne dne tgt by (simp add: normal_collate_fn_Inr)
  have t: "test_collate_fn batch = Inr (?ids, make_mask ?ids, ?v)"
    using ne dne by (simp add: test_collate_fn_Inr)
  have rows: "length (?ids ! i) = Max (set (map length ?encs)) \<and>
        length (make_mask ?ids ! i) = Max (set (map length ?encs)) \<and>
        ?ids ! i = fst (batch ! i) @
          replicate (Max (set (map length ?encs)) - length (fst (batch ! i))) PAD_IDX \<and>
        length (?dec_p ! i) = Max (set (map length ?decs)) \<and>
        ?dec_p ! i = fst (snd (batch ! i)) @
          replicate (Max (set (map length ?decs)) - length (fst (snd (batch ! i)))) PAD_IDX \<and>
        snd (snd (batch ! i)) = Some (tgts ! i) \<and>
        length (?tgt_p ! i) = Max (set (map length tgts)) \<and>
        ?tgt_p ! i = tgts ! i @
          replicate (Max (set (map length tgts)) - length (tgts ! i)) PAD_IDX \<and>
        ?v ! i = fst (snd (batch ! i)) ! 0"
    if i: "i < length batch" for i
  proof -
    have ei: "?encs ! i = fst (batch ! i)" and di: "?decs ! i = fst (snd (batch ! i))"
      using i by simp_all
    have "?ids ! i = ?encs ! i @
             replicate (Max (set (map length ?encs)) - length (?encs ! i)) PAD_IDX \<and>
          length (?ids ! i) = Max (set (map length ?encs))"
      using ne i by (intro padded_row) simp_all
    then have e1: "?ids ! i = fst (batch ! i) @
          replicate (Max (set (map length ?encs)) - length (fst (batch ! i))) PAD_IDX"
      and e2: "length (?ids ! i) = Max (set (map length ?encs))"
      unfolding ei by blast+
    have "?dec_p ! i = ?decs ! i @
             replicate (Max (set (map length ?decs)) - length (?decs ! i)) PAD_IDX \<and>
          length (?dec_p ! i) = Max (set (map length ?decs))"
      using ne i by (intro padded_row) simp_all
    then have d1: "?dec_p ! i = fst (snd (batch ! i)) @
          replicate (Max (set (map length ?decs)) - length (fst (snd (batch ! i)))) PAD_IDX"
      and d2: "length (?dec_p ! i) = Max (set (map length ?decs))"
      unfolding di by blast+
    have "?tgt_p ! i = tgts ! i @
             replicate (Max (set (map length tgts)) - length (tgts ! i)) PAD_IDX \<and>
          length (?tgt_p ! i) = Max (set (map length tgts))"
      using tne i lt by (intro padded_row) simp_all
    then have g1: "?tgt_p ! i = tgts ! i @
          replicate (Max (set (map length tgts)) - length (tgts ! i)) PAD_IDX"
      and g2: "length (?tgt_p ! i) = Max (set (map length tgts))"
      by blast+
    have s: "snd (snd (batch ! i)) = Some (tgts ! i)"
    proof -
      have "map (\<lambda>item. snd (snd item)) batch ! i = map Some tgts ! i"
        using tgt by simp
      then show ?thesis using i lt by simp
    qed
    have "length (make_mask ?ids ! i) = length (?ids ! i)"
      using i by (simp add: make_mask_shape)
    then have m: "length (make_mask ?ids ! i) = Max (set (map length ?encs))"
      using e2 by (rule trans)
    have "fst (snd (batch ! i)) \<noteq> []"
      using dec i by simp
    then have h: "?v ! i = fst (snd (batch ! i)) ! 0"
      using i by (simp add: hd_conv_nth)
    from e2 m e1 d2 d1 s g2 g1 h show ?thesis by (intro conjI)
  qed
  have lens: "length ?ids = length batch \<and> length (make_mask ?ids) = length batch \<and>
     length ?dec_p = length batch \<and> length ?tgt_p = length batch \<and> length ?v = length batch"
    using lt by (simp add: make_mask_shape)
  from n t lens rows show ?thesis by blast
qed


theorem C7_dynamic_padding_witness:
  "[([5, 6, 7], [9], Some [3]), ([5, 6, 7, 8, 4], [9, 3, 4], Some [3, 2])] \<noteq> ([] :: item list) \<and>
   map (\<lambda>item. snd (snd item))
       [([5, 6, 7], [9], Some [3]), ([5, 6, 7, 8, 4], [9, 3, 4], Some [3, 2]) :: item] =
     map Some [[3], [3, 2]] \<and>
   (\<exists>ids emask dec_p tgt_p v.
      normal_collate_fn [([5, 6, 7], [9], Some [3]), ([5, 6, 7, 8, 4], [9, 3, 4], Some [3, 2])] =
        Inr (ids, emask, dec_p, tgt_p, v) \<and>
      length (ids ! 0) = 5 \<and> ids ! 0 = [5, 6, 7, 0, 0] \<and>
      length (dec_p ! 0) = 3 \<and> dec_p ! 0 = [9, 0, 0] \<and>
      length (tgt_p ! 0) = 2 \<and> tgt_p ! 0 = [3, 0])"
proof -
  let ?batch = "[([5, 6, 7], [9], Some [3]), ([5, 6, 7, 8, 4], [9, 3, 4], Some [3, 2])] :: item list"
  let ?tgts = "[[3], [3, 2]] :: tensor list"
  have h1: "?batch \<noteq> []" by simp
  have h2: "\<forall>item \<in> set ?batch. fst (snd item) \<noteq> []" by simp
  have h3: "map (\<lambda>item. snd (snd item)) ?batch = map Some ?tgts" by simp
  from C7_dynamic_padding [OF h1 h2 h3] obtain ids emask dec_p tgt_p v where
    n: "normal_collate_fn ?batch = Inr (ids, emask, dec_p, tgt_p, v)" and
    rows: "\<forall>i < length ?batch.
        length (ids ! i) = Max (set (map length (map fst ?batch))) \<and>
        length (emask ! i) = Max (set (map length (map fst ?batch))) \<and>
        ids ! i = fst (?batch ! i) @
          replicate (Max (set (map length (map fst ?batch))) - length (fst (?batch ! i))) PAD_IDX \<and>
        length (dec_p ! i) = Max (set (map length (map (\<lambda>item. fst (snd item)) ?batch))) \<and>
        dec_p ! i = fst (snd (?batch ! i)) @
          replicate (Max (set (map length (map (\<lambda>item. fst (snd item)) ?batch))) -
                     length (fst (snd (?batch ! i)))) PAD_IDX \<and>
        snd (snd (?batch ! i)) = Some (?tgts ! i) \<and>
        length (tgt_p ! i) = Max (set (map length ?tgts)) \<and>
        tgt_p ! i = ?tgts ! i @
          replicate (Max (set (map length ?tgts)) - length (?tgts ! i)) PAD_IDX \<and>
        v ! i = fst (snd (?batch ! i)) ! 0"
    by blast
  have "0 < length ?batch" by simp
  with rows have
    "length (ids ! 0) = Max (set (map length (map fst ?batch))) \<and>
        length (emask ! 0) = Max (set (map length (map fst ?batch))) \<and>
        ids ! 0 = fst (?batch ! 0) @
          replicate (Max (set (map length (map fst ?batch))) - length (fst (?batch ! 0))) PAD_IDX \<and>
        length (dec_p ! 0) = Max (set (map length (map (\<lambda>item. fst (snd item)) ?batch))) \<and>
        dec_p ! 0 = fst (snd (?batch ! 0)) @
          replicate (Max (set (map length (map (\<lambda>item. fst (snd item)) ?batch))) -
                     length (fst (snd (?batch ! 0)))) PAD_IDX \<and>
        snd (snd (?batch ! 0)) = Some (?tgts ! 0) \<and>
        length (tgt_p ! 0) = Max (set (map length ?tgts)) \<and>
        tgt_p ! 0 = ?tgts ! 0 @
          replicate (Max (set (map length ?tgts)) - length (?tgts ! 0)) PAD_IDX \<and>
        v ! 0 = fst (snd (?batch ! 0)) ! 0"
    by blast
  then have r: "length (ids ! 0) = 5 \<and> ids ! 0 = [5, 6, 7, 0, 0] \<and>
      length (dec_p ! 0) = 3 \<and> dec_p ! 0 = [9, 0, 0] \<and>
      length (tgt_p ! 0) = 2 \<and> tgt_p ! 0 = [3, 0]"
    by (simp add: PAD_IDX_def numeral_eq_Suc)
  from h1 h3 n r show ?thesis by blast
qed

section \<open>Round trip through padding\<close>

lemma strip_padding_mask_row:
  "strip_padding row (map (\<lambda>t. if t = PAD_IDX then 0 else 1) row) =
     filter (\<lambda>t. t \<noteq> PAD_IDX) row"
  by (induction row) (auto simp: strip_padding_def)

lemma filter_pad_row:
  "filter (\<lambda>t. t \<noteq> PAD_IDX) (pad_row n PAD_IDX s) = filter (\<lambda>t. t \<noteq> PAD_IDX) s"
  by (simp add: pad_row_def)

lemma strip_padding_padded:
  assumes "i < length ss"
  shows "strip_padding (map (pad_row n PAD_IDX) ss ! i)
           (make_mask (map (pad_row n PAD_IDX) ss) ! i) =
         filter (\<lambda>t. t \<noteq> PAD_IDX) (ss ! i)"
proof -
  have "make_mask (map (pad_row n PAD_IDX) ss) ! i =
          map (\<lambda>t. if t = PAD_IDX then 0 else 1) (pad_row n PAD_IDX (ss ! i))"
    using assms by (simp add: make_mask_def)
  moreover have "map (pad_row n PAD_IDX) ss ! i = pad_row n PAD_IDX (ss ! i)"
    using assms by simp
  ultimately show ?thesis
    by (simp only: strip_padding_mask_row filter_pad_row)
qed

text \<open>
  An encoder sequence that holds the id 0 is not recovered: the mask is computed from the
  padded ids alone, so it is 0 at a real token 0 as well, and stripping drops that token.
\<close>

theorem C8_strip_padding_counterexample:
  "normal_collate_fn [([5, 0, 7], [9], Some [3])] =
     Inr ([[5, 0, 7]], [[1, 0, 1]], [[9]], [[3]], [9]) \<and>
   strip_padding ([[5, 0, 7]] ! 0) ([[1, 0, 1]] ! 0) = [5, 7] \<and>
   fst (([([5, 0, 7], [9], Some [3])] :: item list) ! 0) = [5, 0, 7] \<and>
   [5, 7] \<noteq> [5, 0, 7 :: int]"
  by (simp add: normal_collate_fn_def pad_sequence_def pad_row_def make_mask_def PAD_IDX_def
        strip_padding_def)

text \<open>
  Claim C8, as amended. For every example of a batch that a collator returns, keeping the
  positions of the padded encoder row whose mask entry is 1 yields the example's encoder
  sequence without its tokens equal to the pad id 0; it recovers the encoder sequence
  exactly when no token id of that sequence is 0.
\<close>

theorem C8_strip_padding_roundtrip:
  assumes "normal_collate_fn batch = Inr (ids, emask, dec_p, tgt_p, v) \<or>
           test_collate_fn batch = Inr (ids, emask, v)"
    and "i < length batch"
  shows "strip_padding (ids ! i) (emask ! i) = filter (\<lambda>t. t \<noteq> PAD_IDX) (fst (batch ! i)) \<and>
         (PAD_IDX \<notin> set (fst (batch ! i)) \<longrightarrow>
            strip_padding (ids ! i) (emask ! i) = fst (batch ! i))"
proof -
  from assms(1) have
    ids: "ids = map (pad_row (max_len (map fst batch)) PAD_IDX) (map fst batch)" and
    m: "emask = make_mask ids"
    by (auto simp: normal_collate_fn_Inr test_collate_fn_Inr)
  have i: "i < length (map fst batch)" using assms(2) by simp
  have "strip_padding (ids ! i) (emask ! i) = filter (\<lambda>t. t \<noteq> PAD_IDX) (map fst batch ! i)"
    unfolding m ids by (rule strip_padding_padded [OF i])
  then have eq: "strip_padding (ids ! i) (emask ! i) =
      filter (\<lambda>t. t \<noteq> PAD_IDX) (fst (batch ! i))"
    using assms(2) by simp
  have "filter (\<lambda>t. t \<noteq> PAD_IDX) (fst (batch ! i)) = fst (batch ! i)"
    if "PAD_IDX \<notin> set (fst (batch ! i))"
    using that by (intro filter_True) auto
  with eq show ?thesis by simp
qed

theorem C8_strip_padding_roundtrip_witness:
  "normal_collate_fn [([5, 6, 7], [9], Some [3]), ([5, 6, 7, 8, 4], [9, 3, 4], Some [3, 2])] =
     Inr ([[5, 6, 7, 0, 0], [5, 6, 7, 8, 4]], [[1, 1, 1, 0, 0], [1, 1, 1, 1, 1]],
          [[9, 0, 0], [9, 3, 4]], [[3, 0], [3, 2]], [9, 9]) \<and>
   PAD_IDX \<notin> set [5, 6, 7] \<and>
   strip_padding [5, 6, 7, 0, 0] [1, 1, 1, 0, 0] = [5, 6, 7]"
proof -
  let ?batch = "[([5, 6, 7], [9], Some [3]), ([5, 6, 7, 8, 4], [9, 3, 4], Some [3, 2])] :: item list"
  have p: "PAD_IDX \<notin> set [5, 6, 7]" by (simp add: PAD_IDX_def)
  have i: "0 < length ?batch" by simp
  have "strip_padding ([[5, 6, 7, 0, 0], [5, 6, 7, 8, 4]] ! 0)
          ([[1, 1, 1, 0, 0], [1, 1, 1, 1, 1]] ! 0) =
        filter (\<lambda>t. t \<noteq> PAD_IDX) (fst (?batch ! 0)) \<and>
        (PAD_IDX \<notin> set (fst (?batch ! 0)) \<longrightarrow>
           strip_padding ([[5, 6, 7, 0, 0], [5, 6, 7, 8, 4]] ! 0)
             ([[1, 1, 1, 0, 0], [1, 1, 1, 1, 1]] ! 0) = fst (?batch ! 0))"
    by (rule C8_strip_padding_roundtrip [OF disjI1 [OF ex_normal_batch] i])
  with p have "strip_padding [5, 6, 7, 0, 0] [1, 1, 1, 0, 0] = [5, 6, 7]"
    by simp
  with ex_normal_batch p show ?thesis by blast
qed

section \<open>Empty splits and empty batches\<close>

lemma ex_dev_nl: "ex_fs (path_join ''data'' (''dev'' @ ''.nl'')) = Some []"
  by (simp add: ex_fs_def path_join_def)

lemma ex_dev_sql: "ex_fs (path_join ''data'' (''dev'' @ ''.sql'')) = Some []"
  by (simp add: ex_fs_def path_join_def)

text \<open>
  Both collators start with \<open>pad_sequence\<close> on the encoder inputs, which refuses an
  empty list of sequences: on the empty list of examples they raise.
\<close>

theorem C9_empty_batch_counterexample:
  "normal_collate_fn [] = Inl RuntimeError \<and> test_collate_fn [] = Inl RuntimeError"
  by (simp add: normal_collate_fn_def test_collate_fn_def pad_sequence_def)

text \<open>
  Claim C9, as amended. An empty split (a question file of zero lines) is accepted by the
  dataset builder, which returns a dataset of length 0 with three empty lists, and every
  item access raises \<open>IndexError\<close>; the collators do not accept the empty list of
  examples: both raise the error of \<open>pad_sequence\<close>, so no batch of size 0 is built.
\<close>

theorem C9_empty_split:
  assumes "get_vocab tk ''<extra_id_0>'' = Some bos"
    and "fs (path_join folder (spl @ ''.nl'')) = Some []"
    and "spl \<noteq> ''test'' \<longrightarrow> fs (path_join folder (spl @ ''.sql'')) = Some sql_lines"
  shows "\<exists>ds. T5Dataset_init fs tk folder spl = Inr ds \<and>
           T5Dataset_len ds = 0 \<and>
           encoder_inputs ds = [] \<and> decoder_inputs ds = [] \<and> decoder_targets ds = [] \<and>
           (\<forall>idx. getitem ds idx = Inl IndexError) \<and>
           normal_collate_fn [] = Inl RuntimeError \<and>
           test_collate_fn [] = Inl RuntimeError"
proof -
  let ?ds = "\<lparr>split = spl, bos_token_id = bos, encoder_inputs = [],
               decoder_inputs = [], decoder_targets = []\<rparr>"
  have init: "T5Dataset_init fs tk folder spl = Inr ?ds"
  proof (cases "spl = ''test''")
    case True
    with assms show ?thesis
      by (simp add: T5Dataset_init_Inr process_data_test load_lines_Inr)
  next
    case False
    with assms show ?thesis
      by (simp add: T5Dataset_init_Inr process_data_labeled load_lines_Inr)
  qed
  have len: "T5Dataset_len ?ds = 0"
    by (simp add: T5Dataset_len_def)
  have get: "\<forall>idx. getitem ?ds idx = Inl IndexError"
    by (simp add: getitem_def py_index_def)
  have coll: "normal_collate_fn [] = Inl RuntimeError \<and> test_collate_fn [] = Inl RuntimeError"
    by (simp add: normal_collate_fn_def test_collate_fn_def pad_sequence_def)
  from init len get coll show ?thesis by force
qed

theorem C9_empty_split_witness:
  "get_vocab ex_tk ''<extra_id_0>'' = Some 32099 \<and>
   ex_fs (path_join ''data'' (''dev'' @ ''.nl'')) = Some [] \<and>
   ex_fs (path_join ''data'' (''dev'' @ ''.sql'')) = Some [] \<and>
   (\<exists>ds. T5Dataset_init ex_fs ex_tk ''data'' ''dev'' = Inr ds \<and> T5Dataset_len ds = 0 \<and>
         getitem ds 0 = Inl IndexError \<and>
         normal_collate_fn [] = Inl RuntimeError \<and> test_collate_fn [] = Inl RuntimeError)"
proof -
  have h3: "''dev'' \<noteq> ''test'' \<longrightarrow> ex_fs (path_join ''data'' (''dev'' @ ''.sql'')) = Some []"
    using ex_dev_sql by simp
  from C9_empty_split [of ex_tk 32099 ex_fs "''data''" "''dev''" "[]", OF ex_vocab ex_dev_nl h3]
  have "\<exists>ds. T5Dataset_init ex_fs ex_tk ''data'' ''dev'' = Inr ds \<and> T5Dataset_len ds = 0 \<and>
         getitem ds 0 = Inl IndexError \<and>
         normal_collate_fn [] = Inl RuntimeError \<and> test_collate_fn [] = Inl RuntimeError"
    by blast
  with ex_vocab ex_dev_nl ex_dev_sql show ?thesis by blast
qed

end
